theory Spec2Isabelle
  imports Main "HOL-Library.Sublist"
begin

section \<open>The ICON configure script for Ubuntu 20 (scripts/icon-cfg/ubuntu20.cpu.py)\<close>

text \<open>
  The script checks that the packages ICON needs are installed, prepares the source tree
  with git, checks the compilers, writes \<^verbatim>\<open>configure.sh\<close> into the build directory and
  runs it. Every function of the script is embedded below under its own name. What a
  function reads from or does to its surroundings (the file system, the apt cache, git
  checkouts, the standard output) is a field of the record \<open>world\<close>, which each function
  takes and returns. An exception is a value \<open>Inl e\<close> of the result.
\<close>

subsection \<open>Characters and strings\<close>

definition dquote :: string where
  "dquote = [CHR 0x22]"

definition tab :: string where
  "tab = [CHR 0x09]"

definition newline :: string where
  "newline = [CHR 0x0A]"

text \<open>\<^verbatim>\<open>s.startswith(p)\<close> and \<^verbatim>\<open>s.endswith(p)\<close>.\<close>

definition startswith :: "string \<Rightarrow> string \<Rightarrow> bool" where
  "startswith s p = (take (length p) s = p)"

definition endswith :: "string \<Rightarrow> string \<Rightarrow> bool" where
  "endswith s p = (length p \<le> length s \<and> drop (length s - length p) s = p)"

text \<open>\<^verbatim>\<open>sep.join(xs)\<close>.\<close>

fun join_str :: "string \<Rightarrow> string list \<Rightarrow> string" where
  "join_str sep [] = []"
| "join_str sep [x] = x"
| "join_str sep (x # y # ys) = x @ sep @ join_str sep (y # ys)"

subsection \<open>Exceptions\<close>

text \<open>
  The exceptions the script can end with. An \<^verbatim>\<open>assert\<close> that fails raises
  \<open>AssertionError\<close> with its message (the empty string when the assertion has none).
  The other constructors are what the operating system and GitPython raise; their
  argument is the path concerned.
\<close>

datatype error =
    AssertionError string
  | FileNotFoundError string
  | FileExistsError string
  | NotADirectoryError string
  | IsADirectoryError string
  | NoSuchPathError string
  | InvalidGitRepositoryError string
  | ValueError string
  | TypeError string
  | GitCommandError string

subsection \<open>Data of the script\<close>

text \<open>\<^verbatim>\<open>class Args(NamedTuple)\<close>.\<close>

record Args =
  icon_dir :: string
  build_dir :: string
  cc :: string
  fc :: string
  claw :: "string option"
  icon_git_repo :: "string option"
  icon_git_branch :: "string option"
  mpi :: bool

text \<open>\<^verbatim>\<open>class DependencyInfo(NamedTuple)\<close>. The field \<^verbatim>\<open>name\<close> is \<open>dep_name\<close> here.\<close>

record DependencyInfo =
  dep_name :: string
  apt_package :: string
  include_dir :: string
  lib_dir :: string
  test_h :: string
  lib :: string

definition DepInfo ::
  "string \<Rightarrow> string \<Rightarrow> string \<Rightarrow> string \<Rightarrow> string \<Rightarrow> string \<Rightarrow> DependencyInfo" where
  "DepInfo n p i l h b =
     \<lparr>dep_name = n, apt_package = p, include_dir = i, lib_dir = l, test_h = h, lib = b\<rparr>"

definition DEPS :: "DependencyInfo list" where
  "DEPS =
    [DepInfo ''lapack'' ''liblapacke-dev'' ''/usr/include''
       ''/usr/lib/x86_64-linux-gnu/lapack'' ''lapacke.h'' ''liblapack.so'',
     DepInfo ''blas'' ''libblas-dev'' ''/usr/include/x86_64-linux-gnu''
       ''/usr/lib/x86_64-linux-gnu/blas'' ''cblas.h'' ''libblas.so'',
     DepInfo ''NetCDF-Fortran'' ''libnetcdff-dev'' ''/usr/include''
       ''/usr/lib/x86_64-linux-gnu'' ''netcdf.inc'' ''libnetcdf.so'',
     DepInfo ''NetCDF-C'' ''libnetcdf-dev'' ''/usr/include''
       ''/usr/lib/x86_64-linux-gnu'' ''netcdf.h'' ''libnetcdff.so'',
     DepInfo ''zlib'' ''zlib1g-dev'' ''/usr/include''
       ''/usr/lib/x86_64-linux-gnu'' ''zlib.h'' ''libz.so'',
     DepInfo ''szip'' ''libsz2'' ''/usr/include''
       ''/usr/lib/x86_64-linux-gnu'' ''szlib.h'' ''libsz.so'',
     DepInfo ''xml2'' ''libxml2-dev'' ''/usr/include/libxml2''
       ''/usr/lib/x86_64-linux-gnu'' ''libxml/parser.h'' ''libxml2.so'']"

subsection \<open>Paths and the file system\<close>

text \<open>
  A file or directory is named by the list of its path components from the root.
  \<open>abspath\<close> turns the text of a path into that list as \<^verbatim>\<open>os.path.abspath\<close> does: a
  relative path starts at the working directory, empty components and \<^verbatim>\<open>.\<close> are
  dropped, and \<^verbatim>\<open>..\<close> removes the component before it. Symbolic links are not
  modelled.
\<close>

type_synonym path = "string list"

fun split_on :: "char \<Rightarrow> string \<Rightarrow> string list" where
  "split_on c [] = [[]]"
| "split_on c (x # xs) =
     (if x = c then [] # split_on c xs
      else (case split_on c xs of
              [] \<Rightarrow> [[x]]
            | w # ws \<Rightarrow> (x # w) # ws))"

definition norm_step :: "path \<Rightarrow> string \<Rightarrow> path" where
  "norm_step p c =
     (if c = [] \<or> c = ''.'' then p
      else if c = ''..'' then butlast p
      else p @ [c])"

definition abspath :: "path \<Rightarrow> string \<Rightarrow> path" where
  "abspath wd s =
     foldl norm_step (if startswith s ''/'' then [] else wd) (split_on CHR ''/'' s)"

text \<open>\<^verbatim>\<open>os.path.join(a, b)\<close> for two arguments.\<close>

definition join_path :: "string \<Rightarrow> string \<Rightarrow> string" where
  "join_path a b =
     (if startswith b ''/'' then b
      else if a = [] \<or> endswith a ''/'' then a @ b
      else a @ ''/'' @ b)"

text \<open>
  A node of the file system is a directory, or a regular file with its content and the
  time of its last modification.
\<close>

datatype node = Dir | File string nat

text \<open>What the script does to its surroundings, in the order in which it does it.\<close>

datatype op =
    Mkdir path
  | Remove path
  | Write path string
  | Clone string path string
  | SubmoduleUpdate path string

text \<open>
  A git checkout as GitPython shows it: the URL of each remote, the name of the active
  branch (\<open>None\<close> when HEAD is detached) and the names of the submodules.
\<close>

record repo =
  remotes :: "string \<rightharpoonup> string"
  active_branch :: "string option"
  submodules :: "string list"

text \<open>
  The surroundings of the script: the nodes of the file system, the working directory,
  the clock, the apt cache (for each known package whether it is installed), the git
  checkouts by directory, what a remote repository holds on a branch (the names of its
  submodules; \<open>None\<close> when the remote or the branch does not exist), the lines printed so
  far and the operations done so far.
\<close>

record world =
  nodes :: "path \<rightharpoonup> node"
  cwd :: path
  clock :: nat
  apt :: "string \<rightharpoonup> bool"
  repos :: "path \<rightharpoonup> repo"
  remote :: "string \<Rightarrow> string \<Rightarrow> string list option"
  stdout :: "string list"
  log :: "op list"

definition resolve :: "world \<Rightarrow> string \<Rightarrow> path" where
  "resolve w s = abspath (cwd w) s"

text \<open>The root is a directory of every file system.\<close>

definition is_dir :: "world \<Rightarrow> path \<Rightarrow> bool" where
  "is_dir w p = (p = [] \<or> nodes w p = Some Dir)"

definition is_file :: "world \<Rightarrow> path \<Rightarrow> bool" where
  "is_file w p = (p \<noteq> [] \<and> (case nodes w p of Some (File c t) \<Rightarrow> True | _ \<Rightarrow> False))"

text \<open>\<^verbatim>\<open>dir_exists\<close> and \<^verbatim>\<open>file_exists\<close> of the script.\<close>

definition dir_exists :: "world \<Rightarrow> string \<Rightarrow> bool" where
  "dir_exists w s = is_dir w (resolve w s)"

definition file_exists :: "world \<Rightarrow> string \<Rightarrow> bool" where
  "file_exists w s = is_file w (resolve w s)"

definition print :: "string \<Rightarrow> world \<Rightarrow> world" where
  "print s w = w\<lparr>stdout := stdout w @ [s]\<rparr>"

text \<open>The surroundings after the lines \<open>ls\<close> have been printed.\<close>

definition printed :: "string list \<Rightarrow> world \<Rightarrow> world" where
  "printed ls w = w\<lparr>stdout := stdout w @ ls\<rparr>"

subsection \<open>check\_compilers\<close>

definition check_compilers :: "Args \<Rightarrow> world \<Rightarrow> error + unit" where
  "check_compilers args w =
     (if \<not> file_exists w (cc args) then
        Inl (AssertionError (''C compiler '' @ dquote @ cc args @ dquote @ '' not found''))
      else if \<not> file_exists w (fc args) then
        Inl (AssertionError
               (''Fortran compiler '' @ dquote @ cc args @ dquote @ '' not found''))
      else (case claw args of
              None \<Rightarrow> Inr ()
            | Some c \<Rightarrow>
                (if \<not> file_exists w c then
                   Inl (AssertionError
                          (''CLAW compiler '' @ dquote @ c @ dquote @ '' not found''))
                 else Inr ())))"

subsection \<open>Operations on the file system\<close>

text \<open>
  \<^verbatim>\<open>os.makedirs(name, exist_ok=True)\<close>: every missing directory on the way to \<open>name\<close> is
  created, \<open>name\<close> itself last. A regular file on the way is an error. The empty name is
  an error too.
\<close>

fun makedirs_from ::
  "string \<Rightarrow> path \<Rightarrow> string list \<Rightarrow> world \<Rightarrow> (error + unit) \<times> world" where
  "makedirs_from s p [] w = (Inr (), w)"
| "makedirs_from s p (c # cs) w =
     (case nodes w (p @ [c]) of
        Some Dir \<Rightarrow> makedirs_from s (p @ [c]) cs w
      | Some (File txt t) \<Rightarrow>
          (Inl (if cs = [] then FileExistsError s else NotADirectoryError s), w)
      | None \<Rightarrow>
          makedirs_from s (p @ [c]) cs
            (w\<lparr>nodes := (nodes w)(p @ [c] \<mapsto> Dir), log := log w @ [Mkdir (p @ [c])]\<rparr>))"

definition makedirs :: "string \<Rightarrow> world \<Rightarrow> (error + unit) \<times> world" where
  "makedirs s w =
     (if s = [] then (Inl (FileNotFoundError s), w)
      else makedirs_from s [] (resolve w s) w)"

text \<open>\<^verbatim>\<open>open(name, 'r')\<close> followed by \<^verbatim>\<open>read()\<close>.\<close>

definition read_file :: "string \<Rightarrow> world \<Rightarrow> error + string" where
  "read_file s w =
     (if is_dir w (resolve w s) then Inl (IsADirectoryError s)
      else (case nodes w (resolve w s) of
              Some (File txt t) \<Rightarrow> Inr txt
            | _ \<Rightarrow> Inl (FileNotFoundError s)))"

text \<open>\<^verbatim>\<open>os.remove(name)\<close>.\<close>

definition remove :: "string \<Rightarrow> world \<Rightarrow> error + world" where
  "remove s w =
     (if is_dir w (resolve w s) then Inl (IsADirectoryError s)
      else (case nodes w (resolve w s) of
              Some (File txt t) \<Rightarrow>
                Inr (w\<lparr>nodes := (nodes w)(resolve w s := None),
                        log := log w @ [Remove (resolve w s)]\<rparr>)
            | _ \<Rightarrow> Inl (FileNotFoundError s)))"

text \<open>
  \<^verbatim>\<open>open(name, 'w')\<close> followed by \<^verbatim>\<open>write(txt)\<close>: the file is created or truncated, it
  holds \<open>txt\<close> afterwards and its modification time is the time of the write. The
  directory that is to hold the file must exist.
\<close>

definition write_file :: "string \<Rightarrow> string \<Rightarrow> world \<Rightarrow> error + world" where
  "write_file s txt w =
     (if is_dir w (resolve w s) then Inl (IsADirectoryError s)
      else if \<not> is_dir w (butlast (resolve w s)) then Inl (FileNotFoundError s)
      else Inr (w\<lparr>nodes := (nodes w)(resolve w s \<mapsto> File txt (clock w)),
                   log := log w @ [Write (resolve w s) txt]\<rparr>))"

subsection \<open>check\_dependencies\<close>

text \<open>
  The loop over the catalog. \<^verbatim>\<open>cache.get\<close> is the lookup in \<open>apt\<close>; the catalog is a
  parameter (the script passes \<open>DEPS\<close>).
\<close>

fun check_dependencies_loop :: "DependencyInfo list \<Rightarrow> world \<Rightarrow> (error + unit) \<times> world" where
  "check_dependencies_loop [] w = (Inr (), w)"
| "check_dependencies_loop (dep # deps) w =
     (let w1 = print (tab @ dep_name dep) w in
      case apt w1 (apt_package dep) of
        None \<Rightarrow>
          (Inl (AssertionError
                  (tab @ tab @ ''Apt package '' @ dquote @ apt_package dep @ dquote
                   @ '' not found. Update apt cache with''
                   @ '' [sudo apt-get update] before running the script'')), w1)
      | Some is_installed \<Rightarrow>
          if \<not> is_installed then
            (Inl (AssertionError
                    (''Install '' @ dquote @ apt_package dep @ dquote
                     @ '' with [sudo apt-get install '' @ apt_package dep @ '']'')), w1)
          else if \<not> file_exists w1 (join_path (include_dir dep) (test_h dep)) then
            (Inl (AssertionError
                    (''Header '' @ dquote @ test_h dep @ dquote
                     @ '' not found at '' @ include_dir dep)), w1)
          else if \<not> file_exists w1 (join_path (lib_dir dep) (lib dep)) then
            (Inl (AssertionError
                    (''Header '' @ dquote @ lib dep @ dquote
                     @ '' not found at '' @ lib_dir dep)), w1)
          else check_dependencies_loop deps w1)"

definition check_dependencies :: "DependencyInfo list \<Rightarrow> world \<Rightarrow> (error + unit) \<times> world" where
  "check_dependencies deps w = check_dependencies_loop deps w"

text \<open>
  The three conditions that the specification names for a descriptor: (a) the package
  manager reports the package as installed, (b) the header file exists under the include
  directory, (c) the library file exists under the library directory.
\<close>

definition dep_conditions_met :: "world \<Rightarrow> DependencyInfo \<Rightarrow> bool" where
  "dep_conditions_met w dep =
     (apt w (apt_package dep) = Some True
      \<and> file_exists w (join_path (include_dir dep) (test_h dep))
      \<and> file_exists w (join_path (lib_dir dep) (lib dep)))"

subsection \<open>prepare\_source\<close>

text \<open>\<^verbatim>\<open>git.Repo(path)\<close>.\<close>

definition open_repo :: "string \<Rightarrow> world \<Rightarrow> error + repo" where
  "open_repo s w =
     (if \<not> dir_exists w s then Inl (NoSuchPathError s)
      else (case repos w (resolve w s) of
              None \<Rightarrow> Inl (InvalidGitRepositoryError s)
            | Some r \<Rightarrow> Inr r))"

text \<open>
  \<^verbatim>\<open>git.Repo.clone_from(url, path, branch=b)\<close>: when the remote has the branch and no file
  is in the way, the directory holds a checkout of the branch afterwards, with the URL as
  its remote \<^verbatim>\<open>origin\<close>. Progress messages of git are not modelled.
\<close>

definition clone_from :: "string \<Rightarrow> string \<Rightarrow> string \<Rightarrow> world \<Rightarrow> (error + unit) \<times> world" where
  "clone_from url s b w =
     (case remote w url b of
        None \<Rightarrow> (Inl (GitCommandError url), w)
      | Some subs \<Rightarrow>
          (case makedirs_from s [] (resolve w s) w of
             (Inl e, w1) \<Rightarrow> (Inl (GitCommandError s), w1)
           | (Inr u, w1) \<Rightarrow>
               (Inr (),
                w1\<lparr>repos := (repos w1)(resolve w s \<mapsto>
                        \<lparr>remotes = [''origin'' \<mapsto> url], active_branch = Some b,
                         submodules = subs\<rparr>),
                    log := log w1 @ [Clone url (resolve w s) b]\<rparr>)))"

text \<open>
  The loop over \<^verbatim>\<open>repo.submodules\<close>: the name is printed and the submodule updated. What
  git does inside a submodule is not modelled; the update is recorded in \<open>log\<close>.
\<close>

fun update_submodules :: "path \<Rightarrow> string list \<Rightarrow> world \<Rightarrow> world" where
  "update_submodules p [] w = w"
| "update_submodules p (submodule # rest) w =
     update_submodules p rest
       ((print (tab @ submodule) w)\<lparr>log := log w @ [SubmoduleUpdate p submodule]\<rparr>)"

text \<open>Lines 145 to 153: the checkout is opened again and its submodules are updated.\<close>

definition update_pass :: "Args \<Rightarrow> world \<Rightarrow> (error + unit) \<times> world" where
  "update_pass args w =
     (case open_repo (icon_dir args) w of
        Inl e \<Rightarrow> (Inl e, w)
      | Inr r \<Rightarrow>
          (Inr (),
           update_submodules (resolve w (icon_dir args)) (submodules r)
             (print (tab @ ''Updating submodules...'') w)))"

definition prepare_source :: "Args \<Rightarrow> world \<Rightarrow> (error + unit) \<times> world" where
  "prepare_source args w =
     (case icon_git_repo args of
        Some git_link \<Rightarrow>
          (let git_branch = (case icon_git_branch args of None \<Rightarrow> ''master'' | Some b \<Rightarrow> b) in
           if dir_exists w (icon_dir args) then
             (let w1 = print (tab @ ''Source directory '' @ dquote @ icon_dir args @ dquote
                              @ '' not empty'') w in
              case open_repo (icon_dir args) w1 of
                Inl e \<Rightarrow> (Inl e, w1)
              | Inr r \<Rightarrow>
                  (case remotes r ''origin'' of
                     None \<Rightarrow> (Inl (ValueError ''origin''), w1)
                   | Some dir_link \<Rightarrow>
                       if dir_link \<noteq> git_link then
                         (Inl (AssertionError
                                 (tab @ ''Source directory origin is in different repository ''
                                  @ dquote @ dir_link @ dquote)), w1)
                       else
                         (case active_branch r of
                            None \<Rightarrow> (Inl (TypeError ''HEAD''), w1)
                          | Some dir_branch_name \<Rightarrow>
                              if dir_branch_name \<noteq> git_branch then
                                (Inl (AssertionError
                                        (tab @ ''Source directory origin is different branch ''
                                         @ dquote @ dir_branch_name @ dquote)), w1)
                              else update_pass args w1)))
           else
             (let w1 = print (''Cloning into '' @ icon_dir args) w in
              case clone_from git_link (icon_dir args) git_branch w1 of
                (Inl e, w2) \<Rightarrow> (Inl e, w2)
              | (Inr u, w2) \<Rightarrow> update_pass args w2))
      | None \<Rightarrow>
          if dir_exists w (icon_dir args) then (Inr (), w)
          else (Inl (AssertionError
                       (''ICON source dir '' @ dquote @ icon_dir args @ dquote
                        @ '' does not exist'')), w))"

subsection \<open>generate\_configure\_script\<close>

text \<open>
  A Python \<^verbatim>\<open>set\<close> of strings is the list of its elements in the order of their first
  insertion. The order in which a \<^verbatim>\<open>for\<close> walks through a set is not the order of
  insertion: it follows the hashes of the strings, which CPython salts anew in every
  process. That order is the parameter \<open>iter\<close> of the functions below (a function from
  the elements of the set to the order in which they are visited).
\<close>

definition set_add :: "string \<Rightarrow> string list \<Rightarrow> string list" where
  "set_add x xs = (if x \<in> set xs then xs else xs @ [x])"

text \<open>Lines 166 to 172: the name of a library for the linker.\<close>

definition link_name :: "string \<Rightarrow> error + string" where
  "link_name l =
     (if \<not> startswith l ''lib'' then Inl (AssertionError [])
      else (let l1 = drop 3 l in
            Inr (if endswith l1 ''.a'' then take (length l1 - 2) l1
                 else if endswith l1 ''.so'' then take (length l1 - 3) l1
                 else l1)))"

text \<open>
  The loop of lines 163 to 173, with \<open>include_dirs\<close>, \<open>lib_dirs\<close> and \<open>libs\<close> as its state.
\<close>

fun collect_deps ::
  "DependencyInfo list \<Rightarrow> string list \<times> string list \<times> string list \<Rightarrow>
   error + string list \<times> string list \<times> string list" where
  "collect_deps [] st = Inr st"
| "collect_deps (dep # deps) (include_dirs, lib_dirs, libs) =
     (case link_name (lib dep) of
        Inl e \<Rightarrow> Inl e
      | Inr l \<Rightarrow>
          collect_deps deps
            (set_add (include_dir dep) include_dirs, set_add (lib_dir dep) lib_dirs,
             libs @ [l]))"

text \<open>Lines 159 to 200: the text of the script.\<close>

definition render_script ::
  "(string list \<Rightarrow> string list) \<Rightarrow> DependencyInfo list \<Rightarrow> Args \<Rightarrow> error + string" where
  "render_script iter deps args =
     (case collect_deps deps ([], [], []) of
        Inl e \<Rightarrow> Inl e
      | Inr (include_dirs, lib_dirs, libs) \<Rightarrow>
          (let inc_str = join_str '' '' (map (\<lambda>inc. ''-I'' @ inc) (iter include_dirs));
               lib_dirs_str = join_str '' '' (map (\<lambda>l. ''-L'' @ l) (iter lib_dirs));
               libs_str = join_str '' '' (map (\<lambda>l. ''-l'' @ l) libs);
               cfg_defs0 =
                 newline
                 @ ''export CC='' @ dquote @ cc args @ dquote @ newline
                 @ ''export FC='' @ dquote @ fc args @ dquote @ newline
                 @ ''export CFLAGS='' @ dquote @ inc_str @ dquote @ newline
                 @ ''export CPPFLAGS='' @ dquote @ inc_str @ dquote @ newline
                 @ ''export FCFLAGS='' @ dquote @ inc_str @ dquote @ newline
                 @ ''export LDFLAGS='' @ dquote @ lib_dirs_str @ dquote @ newline
                 @ ''export LIBS='' @ dquote @ libs_str @ dquote @ newline;
               cfg_defs =
                 (case claw args of
                    None \<Rightarrow> cfg_defs0
                  | Some c \<Rightarrow> cfg_defs0 @ ''export CLAW='' @ dquote @ c @ dquote);
               cfg_flags0 = (case claw args of None \<Rightarrow> [] | Some c \<Rightarrow> [''--enable-claw''])
           in
           if mpi args then Inl (AssertionError ''Not implemented'')
           else
             (let cfg_flags = cfg_flags0 @ [''--disable-mpi''];
                  cfg_flags_str = join_str '' '' cfg_flags;
                  cfg_script_header = newline @ ''#!/bin/bash'' @ newline;
                  cfg_script = cfg_script_header @ cfg_defs
              in Inr (cfg_script @ newline @ icon_dir args @ ''/configure '' @ cfg_flags_str
                      @ newline))))"

text \<open>Lines 203 to 208: an existing file with another content is removed.\<close>

definition remove_stale :: "string \<Rightarrow> string \<Rightarrow> world \<Rightarrow> error + world" where
  "remove_stale cfg_script_file cfg_script w =
     (if file_exists w cfg_script_file then
        (case read_file cfg_script_file w of
           Inl e \<Rightarrow> Inl e
         | Inr txt \<Rightarrow> if cfg_script \<noteq> txt then remove cfg_script_file w else Inr w)
      else Inr w)"

definition generate_configure_script ::
  "(string list \<Rightarrow> string list) \<Rightarrow> DependencyInfo list \<Rightarrow> Args \<Rightarrow> world \<Rightarrow>
   (error + string \<times> string) \<times> world" where
  "generate_configure_script iter deps args w =
     (case render_script iter deps args of
        Inl e \<Rightarrow> (Inl e, w)
      | Inr cfg_script \<Rightarrow>
          (case makedirs (build_dir args) w of
             (Inl e, w1) \<Rightarrow> (Inl e, w1)
           | (Inr u, w1) \<Rightarrow>
               (let cfg_script_file = join_path (build_dir args) ''configure.sh'' in
                case remove_stale cfg_script_file cfg_script w1 of
                  Inl e \<Rightarrow> (Inl e, w1)
                | Inr w2 \<Rightarrow>
                    (case write_file cfg_script_file cfg_script w2 of
                       Inl e \<Rightarrow> (Inl e, w2)
                     | Inr w3 \<Rightarrow> (Inr (cfg_script_file, cfg_script), w3)))))"

subsection \<open>main\<close>

text \<open>
  \<^verbatim>\<open>run('bash configure.sh', shell=True, cwd=args.build_dir, ...)\<close> is a process outside
  the script: \<open>returncode\<close> is the code it ends with, given the surroundings in which it
  is started. The arguments come parsed; the catalog and the order in which sets are
  walked through are parameters as above.
\<close>

definition main ::
  "(world \<Rightarrow> int) \<Rightarrow> (string list \<Rightarrow> string list) \<Rightarrow> DependencyInfo list \<Rightarrow> Args \<Rightarrow> world \<Rightarrow>
   (error + unit) \<times> world" where
  "main returncode iter deps args w =
     (case check_dependencies deps (print ''Checking that dependencies are installed...'' w) of
        (Inl e, w1) \<Rightarrow> (Inl e, w1)
      | (Inr u, w1) \<Rightarrow>
          (case prepare_source args (print ''Preparing source...'' w1) of
             (Inl e, w2) \<Rightarrow> (Inl e, w2)
           | (Inr u, w2) \<Rightarrow>
               (case check_compilers args (print ''Checking compilers...'' w2) of
                  Inl e \<Rightarrow> (Inl e, print ''Checking compilers...'' w2)
                | Inr u \<Rightarrow>
                    (case generate_configure_script iter deps args
                            (print ''Generating configure script...''
                               (print ''Checking compilers...'' w2)) of
                       (Inl e, w3) \<Rightarrow> (Inl e, w3)
                     | (Inr (cfg_script_file, cfg_script), w3) \<Rightarrow>
                         (let w4 = print ''Configuring ICON...'' (print cfg_script w3) in
                          if returncode w4 = 0 then (Inr (), w4)
                          else (Inl (AssertionError []), w4))))))"

subsection \<open>Example surroundings\<close>

text \<open>A machine with the C compiler but without the Fortran compiler.\<close>

definition args_ex :: Args where
  "args_ex =
     \<lparr>icon_dir = ''/home/user/icon'', build_dir = ''/home/user/build'',
      cc = ''/usr/bin/gcc'', fc = ''/usr/bin/gfortran'', claw = None,
      icon_git_repo = None, icon_git_branch = None, mpi = False\<rparr>"

definition world_ex :: world where
  "world_ex =
     \<lparr>nodes = map_of
        [([''usr''], Dir), ([''usr'', ''bin''], Dir),
         ([''usr'', ''bin'', ''gcc''], File ''ELF'' 1),
         ([''home''], Dir), ([''home'', ''user''], Dir),
         ([''home'', ''user'', ''icon''], Dir)],
      cwd = [''home'', ''user''], clock = 10, apt = Map.empty, repos = Map.empty,
      remote = (\<lambda>url b. None), stdout = [], log = []\<rparr>"

text \<open>The same arguments with MPI switched on.\<close>

definition args_mpi :: Args where
  "args_mpi = args_ex\<lparr>mpi := True\<rparr>"

text \<open>
  A catalog with zlib alone, for any apt package, and the script that is expected for it
  with \<^verbatim>\<open>/usr/bin/gcc\<close> and \<^verbatim>\<open>/usr/bin/gfortran\<close>, without CLAW and without MPI, for
  the source directory \<open>src\<close>.
\<close>

definition zlib_only :: "string \<Rightarrow> DependencyInfo list" where
  "zlib_only pkg = [DepInfo ''zlib'' pkg ''/usr/include'' ''/usr/lib'' ''zlib.h'' ''libz.so'']"

definition zlib_script :: "string \<Rightarrow> string" where
  "zlib_script src =
     newline @ ''#!/bin/bash'' @ newline
     @ newline
     @ ''export CC='' @ dquote @ ''/usr/bin/gcc'' @ dquote @ newline
     @ ''export FC='' @ dquote @ ''/usr/bin/gfortran'' @ dquote @ newline
     @ ''export CFLAGS='' @ dquote @ ''-I/usr/include'' @ dquote @ newline
     @ ''export CPPFLAGS='' @ dquote @ ''-I/usr/include'' @ dquote @ newline
     @ ''export FCFLAGS='' @ dquote @ ''-I/usr/include'' @ dquote @ newline
     @ ''export LDFLAGS='' @ dquote @ ''-L/usr/lib'' @ dquote @ newline
     @ ''export LIBS='' @ dquote @ ''-lz'' @ dquote @ newline
     @ newline
     @ src @ ''/configure --disable-mpi'' @ newline"

text \<open>
  The script for \<open>DEPS\<close> and \<open>args_ex\<close> when the sets are walked through in the order of
  insertion, and a machine whose build directory holds that script already, written at
  time 3.
\<close>

definition DEPS_script :: string where
  "DEPS_script =
     newline @ ''#!/bin/bash'' @ newline
     @ newline
     @ ''export CC='' @ dquote @ ''/usr/bin/gcc'' @ dquote @ newline
     @ ''export FC='' @ dquote @ ''/usr/bin/gfortran'' @ dquote @ newline
     @ ''export CFLAGS='' @ dquote
       @ ''-I/usr/include -I/usr/include/x86_64-linux-gnu -I/usr/include/libxml2''
       @ dquote @ newline
     @ ''export CPPFLAGS='' @ dquote
       @ ''-I/usr/include -I/usr/include/x86_64-linux-gnu -I/usr/include/libxml2''
       @ dquote @ newline
     @ ''export FCFLAGS='' @ dquote
       @ ''-I/usr/include -I/usr/include/x86_64-linux-gnu -I/usr/include/libxml2''
       @ dquote @ newline
     @ ''export LDFLAGS='' @ dquote
       @ ''-L/usr/lib/x86_64-linux-gnu/lapack -L/usr/lib/x86_64-linux-gnu/blas''
       @ '' -L/usr/lib/x86_64-linux-gnu''
       @ dquote @ newline
     @ ''export LIBS='' @ dquote
       @ ''-llapack -lblas -lnetcdf -lnetcdff -lz -lsz -lxml2''
       @ dquote @ newline
     @ newline
     @ ''/home/user/icon/configure --disable-mpi'' @ newline"

definition world_built :: world where
  "world_built =
     world_ex\<lparr>nodes := (nodes world_ex)
        ([''home'', ''user'', ''build''] \<mapsto> Dir,
         [''home'', ''user'', ''build'', ''configure.sh''] \<mapsto> File DEPS_script 3)\<rparr>"




text \<open>
  A machine on which lapack is installed with its header and library, and blas is known
  to apt but not installed.
\<close>

definition world_apt :: world where
  "world_apt =
     world_ex\<lparr>nodes := (nodes world_ex)
        ([''usr'', ''include''] \<mapsto> Dir,
         [''usr'', ''include'', ''lapacke.h''] \<mapsto> File ''h'' 1,
         [''usr'', ''lib''] \<mapsto> Dir,
         [''usr'', ''lib'', ''x86_64-linux-gnu''] \<mapsto> Dir,
         [''usr'', ''lib'', ''x86_64-linux-gnu'', ''lapack''] \<mapsto> Dir,
         [''usr'', ''lib'', ''x86_64-linux-gnu'', ''lapack'', ''liblapack.so''] \<mapsto> File ''so'' 1),
       apt := [''liblapacke-dev'' \<mapsto> True, ''libblas-dev'' \<mapsto> False]\<rparr>"


section \<open>Properties\<close>

subsection \<open>Facts about the model\<close>


lemma collect_DEPS:
  "collect_deps DEPS ([], [], []) =
     Inr ([''/usr/include'', ''/usr/include/x86_64-linux-gnu'', ''/usr/include/libxml2''],
          [''/usr/lib/x86_64-linux-gnu/lapack'', ''/usr/lib/x86_64-linux-gnu/blas'',
           ''/usr/lib/x86_64-linux-gnu''],
          [''lapack'', ''blas'', ''netcdf'', ''netcdff'', ''z'', ''sz'', ''xml2''])"
  by (simp add: DEPS_def DepInfo_def link_name_def startswith_def endswith_def set_add_def)

lemma link_name_strip:
  assumes "suf = ''.so'' \<or> suf = ''.a''"
  shows "link_name (''lib'' @ stem @ suf) = Inr stem"
  using assms by (auto simp: link_name_def startswith_def endswith_def)

lemma generate_text:
  assumes "generate_configure_script iter deps args w = (Inr (f, txt), w')"
  shows "render_script iter deps args = Inr txt
       \<and> f = join_path (build_dir args) ''configure.sh''"
  using assms
  by (auto simp: generate_configure_script_def Let_def split: sum.splits prod.splits)

lemma render_mpi:
  assumes "mpi args"
  shows "\<exists>e. render_script iter deps args = Inl e"
  using assms by (auto simp: render_script_def Let_def split: sum.splits)

lemma render_zlib_only:
  assumes "cc args = ''/usr/bin/gcc''" and "fc args = ''/usr/bin/gfortran''"
    and "claw args = None" and "\<not> mpi args" and "\<And>x. iter [x] = [x]"
  shows "render_script iter (zlib_only pkg) args = Inr (zlib_script (icon_dir args))"
  using assms
  by (simp add: render_script_def zlib_only_def DepInfo_def link_name_def startswith_def
      endswith_def set_add_def zlib_script_def)





lemma startswith_append:
  "a \<noteq> [] \<Longrightarrow> startswith (a @ b) ''/'' = startswith a ''/''"
  by (cases a) (simp_all add: startswith_def)














lemma render_DEPS_ex: "render_script id DEPS args_ex = Inr DEPS_script"
  by (simp add: render_script_def collect_DEPS args_ex_def DEPS_script_def)


lemma abspath_build: "abspath [''home'', ''user''] ''/home/user/build'' = [''home'', ''user'', ''build'']"
  by (simp add: abspath_def startswith_def norm_step_def)

lemma abspath_cfg:
  "abspath [''home'', ''user''] ''/home/user/build/configure.sh''
     = [''home'', ''user'', ''build'', ''configure.sh'']"
  by (simp add: abspath_def startswith_def norm_step_def)

lemma join_build: "join_path ''/home/user/build'' ''configure.sh'' = ''/home/user/build/configure.sh''"
  by (simp add: join_path_def startswith_def endswith_def)

lemma file_exists_printed [simp]: "file_exists (printed ls w) s = file_exists w s"
  by (simp add: printed_def file_exists_def is_file_def resolve_def)

lemma dir_exists_printed [simp]: "dir_exists (printed ls w) s = dir_exists w s"
  by (simp add: printed_def dir_exists_def is_dir_def resolve_def)

lemma print_printed: "print s w = printed [s] w"
  by (simp add: print_def printed_def)

lemma printed_printed [simp]: "printed ys (printed xs w) = printed (xs @ ys) w"
  by (simp add: printed_def)

lemma printed_fields [simp]:
  "apt (printed ls w) = apt w" "nodes (printed ls w) = nodes w" "cwd (printed ls w) = cwd w"
  "repos (printed ls w) = repos w" "log (printed ls w) = log w"
  "stdout (printed ls w) = stdout w @ ls" "resolve (printed ls w) = resolve w"
  by (simp_all add: printed_def resolve_def fun_eq_iff)

lemma dep_conditions_met_printed [simp]:
  "dep_conditions_met (printed ls w) dep = dep_conditions_met w dep"
  by (simp add: dep_conditions_met_def)

lemma check_loop_step:
  "dep_conditions_met w dep \<Longrightarrow>
   check_dependencies_loop (dep # deps) w
     = check_dependencies_loop deps (printed [tab @ dep_name dep] w)"
  by (simp add: dep_conditions_met_def print_printed Let_def)

lemma check_loop_met:
  "\<forall>x \<in> set pre. dep_conditions_met w x \<Longrightarrow>
   check_dependencies_loop (pre @ rest) w
     = check_dependencies_loop rest (printed (map (\<lambda>x. tab @ dep_name x) pre) w)"
proof (induction pre arbitrary: w)
  case Nil
  show ?case by (simp add: printed_def)
next
  case (Cons d pre)
  from Cons.prems have "dep_conditions_met w d"
    and "\<forall>x \<in> set pre. dep_conditions_met (printed [tab @ dep_name d] w) x"
    by simp_all
  with Cons.IH [of "printed [tab @ dep_name d] w"] show ?case
    by (simp add: check_loop_step del: check_dependencies_loop.simps)
qed


subsection \<open>The claims\<close>





text \<open>
  C8. Every library file name of the catalog \<open>DEPS\<close> begins with \<^verbatim>\<open>lib\<close> and ends with
  \<^verbatim>\<open>.so\<close> or \<^verbatim>\<open>.a\<close>, and the name given to the linker is the file name without that
  prefix and that suffix.
\<close>

theorem DEPS_lib_names:
  "\<forall>dep \<in> set DEPS.
     startswith (lib dep) ''lib''
     \<and> (endswith (lib dep) ''.so'' \<or> endswith (lib dep) ''.a'')
     \<and> (\<exists>stem suf. (suf = ''.so'' \<or> suf = ''.a'') \<and> lib dep = ''lib'' @ stem @ suf
                    \<and> link_name (lib dep) = Inr stem)"
proof
  fix dep assume d: "dep \<in> set DEPS"
  define stem where "stem = take (length (lib dep) - 6) (drop 3 (lib dep))"
  from d have e: "lib dep = ''lib'' @ stem @ ''.so''"
    unfolding stem_def by (auto simp: DEPS_def DepInfo_def)
  have "link_name (lib dep) = Inr stem"
    unfolding e by (rule link_name_strip) simp
  moreover from e have "startswith (lib dep) ''lib''" "endswith (lib dep) ''.so''"
    by (simp_all add: startswith_def endswith_def)
  ultimately show "startswith (lib dep) ''lib''
     \<and> (endswith (lib dep) ''.so'' \<or> endswith (lib dep) ''.a'')
     \<and> (\<exists>stem suf. (suf = ''.so'' \<or> suf = ''.a'') \<and> lib dep = ''lib'' @ stem @ suf
                    \<and> link_name (lib dep) = Inr stem)"
    using e by blast
qed

theorem DEPS_lib_names_witness:
  "DepInfo ''zlib'' ''zlib1g-dev'' ''/usr/include'' ''/usr/lib/x86_64-linux-gnu''
     ''zlib.h'' ''libz.so'' \<in> set DEPS
   \<and> startswith ''libz.so'' ''lib'' \<and> endswith ''libz.so'' ''.so''
   \<and> (\<exists>stem suf. (suf = ''.so'' \<or> suf = ''.a'') \<and> ''libz.so'' = ''lib'' @ stem @ suf
                  \<and> link_name ''libz.so'' = Inr stem)"
proof -
  have m: "DepInfo ''zlib'' ''zlib1g-dev'' ''/usr/include'' ''/usr/lib/x86_64-linux-gnu''
             ''zlib.h'' ''libz.so'' \<in> set DEPS"
    by (simp add: DEPS_def)
  have n: "endswith ''libz.so'' ''.so''"
    by (simp add: endswith_def)
  from bspec [OF DEPS_lib_names m] m n show ?thesis
    by (simp add: DepInfo_def)
qed

text \<open>
  C3. With MPI switched on \<open>generate_configure_script\<close> raises the assertion
  \<^verbatim>\<open>Not implemented\<close> and leaves its surroundings as they were: no directory is made and
  no file is removed or written. With another catalog than \<open>DEPS\<close> the call still ends
  with an exception and leaves its surroundings as they were.
\<close>

theorem generate_mpi_not_implemented:
  assumes "mpi args"
  shows "generate_configure_script iter DEPS args w =
           (Inl (AssertionError ''Not implemented''), w)
       \<and> (\<exists>e. generate_configure_script iter deps args w = (Inl e, w))"
proof -
  have "generate_configure_script iter DEPS args w =
          (Inl (AssertionError ''Not implemented''), w)"
    using assms
    by (simp add: generate_configure_script_def render_script_def collect_DEPS Let_def)
  moreover from render_mpi [OF assms] obtain e where "render_script iter deps args = Inl e"
    by blast
  then have "generate_configure_script iter deps args w = (Inl e, w)"
    by (simp add: generate_configure_script_def)
  ultimately show ?thesis by blast
qed

theorem generate_mpi_not_implemented_witness:
  "mpi args_mpi
   \<and> generate_configure_script id DEPS args_mpi world_ex =
       (Inl (AssertionError ''Not implemented''), world_ex)"
proof -
  have a: "mpi args_mpi"
    by (simp add: args_mpi_def)
  from generate_mpi_not_implemented [OF a, of id world_ex] a show ?thesis
    by simp
qed

text \<open>
  C5. For the catalog with zlib alone (include directory \<^verbatim>\<open>/usr/include\<close>, library
  directory \<^verbatim>\<open>/usr/lib\<close>, library \<^verbatim>\<open>libz.so\<close>), the compilers \<^verbatim>\<open>/usr/bin/gcc\<close> and
  \<^verbatim>\<open>/usr/bin/gfortran\<close>, no CLAW and no MPI, the text of the script is \<open>zlib_script\<close>. It
  contains \<^verbatim>\<open>CFLAGS="-I/usr/include"\<close>, \<^verbatim>\<open>LDFLAGS="-L/usr/lib"\<close> and \<^verbatim>\<open>LIBS="-lz"\<close>, and its
  last line is the call of \<^verbatim>\<open>configure\<close> with \<^verbatim>\<open>--disable-mpi\<close> as its last flag. A set
  with one element is walked through in one way only.
\<close>

theorem example_zlib_script:
  assumes "cc args = ''/usr/bin/gcc''" and "fc args = ''/usr/bin/gfortran''"
    and "claw args = None" and "\<not> mpi args" and "\<And>x. iter [x] = [x]"
  shows "render_script iter (zlib_only pkg) args = Inr (zlib_script (icon_dir args))
       \<and> (\<forall>w f txt w'.
             generate_configure_script iter (zlib_only pkg) args w = (Inr (f, txt), w')
             \<longrightarrow> txt = zlib_script (icon_dir args))
       \<and> sublist (''CFLAGS='' @ dquote @ ''-I/usr/include'' @ dquote)
           (zlib_script (icon_dir args))
       \<and> sublist (''LDFLAGS='' @ dquote @ ''-L/usr/lib'' @ dquote)
           (zlib_script (icon_dir args))
       \<and> sublist (''LIBS='' @ dquote @ ''-lz'' @ dquote) (zlib_script (icon_dir args))
       \<and> suffix (newline @ icon_dir args @ ''/configure --disable-mpi'' @ newline)
           (zlib_script (icon_dir args))"
proof -
  let ?S = "zlib_script (icon_dir args)"
  have r: "render_script iter (zlib_only pkg) args = Inr ?S"
    using assms by (rule render_zlib_only)
  have g: "\<forall>w f txt w'.
             generate_configure_script iter (zlib_only pkg) args w = (Inr (f, txt), w')
             \<longrightarrow> txt = ?S"
    using generate_text r by fastforce
  have c: "sublist (''CFLAGS='' @ dquote @ ''-I/usr/include'' @ dquote) ?S"
    unfolding sublist_def
    by (rule exI [of _ "newline @ ''#!/bin/bash'' @ newline @ newline
        @ ''export CC='' @ dquote @ ''/usr/bin/gcc'' @ dquote @ newline
        @ ''export FC='' @ dquote @ ''/usr/bin/gfortran'' @ dquote @ newline @ ''export ''"])
      (simp add: zlib_script_def)
  have l: "sublist (''LDFLAGS='' @ dquote @ ''-L/usr/lib'' @ dquote) ?S"
    unfolding sublist_def
    by (rule exI [of _ "newline @ ''#!/bin/bash'' @ newline @ newline
        @ ''export CC='' @ dquote @ ''/usr/bin/gcc'' @ dquote @ newline
        @ ''export FC='' @ dquote @ ''/usr/bin/gfortran'' @ dquote @ newline
        @ ''export CFLAGS='' @ dquote @ ''-I/usr/include'' @ dquote @ newline
        @ ''export CPPFLAGS='' @ dquote @ ''-I/usr/include'' @ dquote @ newline
        @ ''export FCFLAGS='' @ dquote @ ''-I/usr/include'' @ dquote @ newline @ ''export ''"])
      (simp add: zlib_script_def)
  have b: "sublist (''LIBS='' @ dquote @ ''-lz'' @ dquote) ?S"
    unfolding sublist_def
    by (rule exI [of _ "newline @ ''#!/bin/bash'' @ newline @ newline
        @ ''export CC='' @ dquote @ ''/usr/bin/gcc'' @ dquote @ newline
        @ ''export FC='' @ dquote @ ''/usr/bin/gfortran'' @ dquote @ newline
        @ ''export CFLAGS='' @ dquote @ ''-I/usr/include'' @ dquote @ newline
        @ ''export CPPFLAGS='' @ dquote @ ''-I/usr/include'' @ dquote @ newline
        @ ''export FCFLAGS='' @ dquote @ ''-I/usr/include'' @ dquote @ newline
        @ ''export LDFLAGS='' @ dquote @ ''-L/usr/lib'' @ dquote @ newline @ ''export ''"])
      (simp add: zlib_script_def)
  have s: "suffix (newline @ icon_dir args @ ''/configure --disable-mpi'' @ newline) ?S"
    unfolding suffix_def zlib_script_def by (simp add: dquote_def newline_def)
  from r g c l b s show ?thesis by blast
qed

theorem example_zlib_script_witness:
  "cc args_ex = ''/usr/bin/gcc'' \<and> fc args_ex = ''/usr/bin/gfortran''
   \<and> claw args_ex = None \<and> \<not> mpi args_ex \<and> (\<forall>x::string. id [x] = [x])
   \<and> render_script id (zlib_only ''zlib1g-dev'') args_ex
       = Inr (zlib_script ''/home/user/icon'')"
proof -
  have a: "cc args_ex = ''/usr/bin/gcc''" "fc args_ex = ''/usr/bin/gfortran''"
    "claw args_ex = None" "\<not> mpi args_ex"
    by (simp_all add: args_ex_def)
  have i: "\<And>x::string. id [x] = [x]"
    by simp
  have d: "icon_dir args_ex = ''/home/user/icon''"
    by (simp add: args_ex_def)
  have t: "render_script id (zlib_only ''zlib1g-dev'') args_ex
             = Inr (zlib_script (icon_dir args_ex))"
    by (rule conjunct1 [OF example_zlib_script [OF a i]])
  from t a i show ?thesis
    unfolding d by blast
qed

text \<open>
  C6. \<open>check_dependencies\<close> goes through the catalog in its order. As long as the three
  conditions of a descriptor are met (the package is installed, the header file exists,
  the library file exists) it goes on to the next one, and when all are met it returns.
  At the first descriptor \<open>d\<close> with a condition that is not met it stops with a message
  that names the package, or the file and its directory: only the names of the
  descriptors up to \<open>d\<close> have been printed, and nothing else has changed. The failure ends
  \<open>main\<close> as well.
\<close>

theorem check_dependencies_fail_fast:
  assumes "\<forall>x \<in> set pre. dep_conditions_met w x"
  shows "check_dependencies pre w = (Inr (), printed (map (\<lambda>x. tab @ dep_name x) pre) w)
    \<and> (apt w (apt_package d) = None \<longrightarrow>
         check_dependencies (pre @ d # post) w =
           (Inl (AssertionError
                   (tab @ tab @ ''Apt package '' @ dquote @ apt_package d @ dquote
                    @ '' not found. Update apt cache with''
                    @ '' [sudo apt-get update] before running the script'')),
            printed (map (\<lambda>x. tab @ dep_name x) (pre @ [d])) w))
    \<and> (apt w (apt_package d) = Some False \<longrightarrow>
         check_dependencies (pre @ d # post) w =
           (Inl (AssertionError
                   (''Install '' @ dquote @ apt_package d @ dquote
                    @ '' with [sudo apt-get install '' @ apt_package d @ '']'')),
            printed (map (\<lambda>x. tab @ dep_name x) (pre @ [d])) w))
    \<and> (apt w (apt_package d) = Some True
        \<and> \<not> file_exists w (join_path (include_dir d) (test_h d)) \<longrightarrow>
         check_dependencies (pre @ d # post) w =
           (Inl (AssertionError
                   (''Header '' @ dquote @ test_h d @ dquote
                    @ '' not found at '' @ include_dir d)),
            printed (map (\<lambda>x. tab @ dep_name x) (pre @ [d])) w))
    \<and> (apt w (apt_package d) = Some True
        \<and> file_exists w (join_path (include_dir d) (test_h d))
        \<and> \<not> file_exists w (join_path (lib_dir d) (lib d)) \<longrightarrow>
         check_dependencies (pre @ d # post) w =
           (Inl (AssertionError
                   (''Header '' @ dquote @ lib d @ dquote
                    @ '' not found at '' @ lib_dir d)),
            printed (map (\<lambda>x. tab @ dep_name x) (pre @ [d])) w))
    \<and> (\<forall>e w1. check_dependencies deps
                   (print ''Checking that dependencies are installed...'' w) = (Inl e, w1)
               \<longrightarrow> main returncode iter deps args w = (Inl e, w1))"
proof -
  let ?w = "printed (map (\<lambda>x. tab @ dep_name x) pre) w"
  from check_loop_met [OF assms, of "[]"] have 1:
    "check_dependencies pre w = (Inr (), ?w)"
    by (simp add: check_dependencies_def)
  have 2: "check_dependencies (pre @ d # post) w = check_dependencies_loop (d # post) ?w"
    using check_loop_met [OF assms] by (simp add: check_dependencies_def)
  have 3: "\<forall>e w1. check_dependencies deps
                   (print ''Checking that dependencies are installed...'' w) = (Inl e, w1)
               \<longrightarrow> main returncode iter deps args w = (Inl e, w1)"
    by (simp add: main_def)
  have 4: "check_dependencies_loop (d # post) ?w =
           (Inl (AssertionError
                   (tab @ tab @ ''Apt package '' @ dquote @ apt_package d @ dquote
                    @ '' not found. Update apt cache with''
                    @ '' [sudo apt-get update] before running the script'')),
            printed (map (\<lambda>x. tab @ dep_name x) (pre @ [d])) w)"
    if "apt w (apt_package d) = None"
    using that by (simp add: print_printed Let_def)
  have 5: "check_dependencies_loop (d # post) ?w =
           (Inl (AssertionError
                   (''Install '' @ dquote @ apt_package d @ dquote
                    @ '' with [sudo apt-get install '' @ apt_package d @ '']'')),
            printed (map (\<lambda>x. tab @ dep_name x) (pre @ [d])) w)"
    if "apt w (apt_package d) = Some False"
    using that by (simp add: print_printed Let_def)
  have 6: "check_dependencies_loop (d # post) ?w =
           (Inl (AssertionError
                   (''Header '' @ dquote @ test_h d @ dquote
                    @ '' not found at '' @ include_dir d)),
            printed (map (\<lambda>x. tab @ dep_name x) (pre @ [d])) w)"
    if "apt w (apt_package d) = Some True"
      and "\<not> file_exists w (join_path (include_dir d) (test_h d))"
    using that by (simp add: print_printed Let_def)
  have 7: "check_dependencies_loop (d # post) ?w =
           (Inl (AssertionError
                   (''Header '' @ dquote @ lib d @ dquote
                    @ '' not found at '' @ lib_dir d)),
            printed (map (\<lambda>x. tab @ dep_name x) (pre @ [d])) w)"
    if "apt w (apt_package d) = Some True"
      and "file_exists w (join_path (include_dir d) (test_h d))"
      and "\<not> file_exists w (join_path (lib_dir d) (lib d))"
    using that by (simp add: print_printed Let_def)
  from 1 3 4 5 6 7 show ?thesis
    unfolding 2 by blast
qed

theorem check_dependencies_fail_fast_witness:
  "dep_conditions_met world_apt
     (DepInfo ''lapack'' ''liblapacke-dev'' ''/usr/include''
        ''/usr/lib/x86_64-linux-gnu/lapack'' ''lapacke.h'' ''liblapack.so'')
   \<and> apt world_apt ''libblas-dev'' = Some False
   \<and> check_dependencies DEPS world_apt =
       (Inl (AssertionError
               (''Install '' @ dquote @ ''libblas-dev'' @ dquote
                @ '' with [sudo apt-get install libblas-dev]'')),
        printed [tab @ ''lapack'', tab @ ''blas''] world_apt)"
proof -
  let ?lapack = "DepInfo ''lapack'' ''liblapacke-dev'' ''/usr/include''
                   ''/usr/lib/x86_64-linux-gnu/lapack'' ''lapacke.h'' ''liblapack.so''"
  let ?blas = "DepInfo ''blas'' ''libblas-dev'' ''/usr/include/x86_64-linux-gnu''
                 ''/usr/lib/x86_64-linux-gnu/blas'' ''cblas.h'' ''libblas.so''"
  have j: "join_path ''/usr/include'' ''lapacke.h'' = ''/usr/include/lapacke.h''"
    "join_path ''/usr/lib/x86_64-linux-gnu/lapack'' ''liblapack.so''
       = ''/usr/lib/x86_64-linux-gnu/lapack/liblapack.so''"
    by (simp_all add: join_path_def startswith_def endswith_def)
  have r: "resolve world_apt ''/usr/include/lapacke.h'' = [''usr'', ''include'', ''lapacke.h'']"
    "resolve world_apt ''/usr/lib/x86_64-linux-gnu/lapack/liblapack.so''
       = [''usr'', ''lib'', ''x86_64-linux-gnu'', ''lapack'', ''liblapack.so'']"
    by (simp_all add: resolve_def abspath_def startswith_def norm_step_def)
  have f: "file_exists world_apt ''/usr/include/lapacke.h''"
    "file_exists world_apt ''/usr/lib/x86_64-linux-gnu/lapack/liblapack.so''"
    unfolding file_exists_def r by (simp_all add: is_file_def world_apt_def)
  have a: "apt world_apt ''liblapacke-dev'' = Some True" "apt world_apt ''libblas-dev'' = Some False"
    by (simp_all add: world_apt_def)
  have m: "\<forall>x \<in> set [?lapack]. dep_conditions_met world_apt x"
    by (simp add: dep_conditions_met_def DepInfo_def j f a)
  have d: "DEPS = [?lapack] @ ?blas # drop 2 DEPS"
    by (simp add: DEPS_def)
  have b: "apt world_apt (apt_package ?blas) = Some False"
    by (simp add: DepInfo_def a)
  from check_dependencies_fail_fast [OF m, of ?blas "drop 2 DEPS"] b
  have "check_dependencies ([?lapack] @ ?blas # drop 2 DEPS) world_apt =
       (Inl (AssertionError
               (''Install '' @ dquote @ apt_package ?blas @ dquote
                @ '' with [sudo apt-get install '' @ apt_package ?blas @ '']'')),
        printed (map (\<lambda>x. tab @ dep_name x) ([?lapack] @ [?blas])) world_apt)"
    by blast
  then have "check_dependencies DEPS world_apt =
       (Inl (AssertionError
               (''Install '' @ dquote @ ''libblas-dev'' @ dquote
                @ '' with [sudo apt-get install libblas-dev]'')),
        printed [tab @ ''lapack'', tab @ ''blas''] world_apt)"
    unfolding d [symmetric] by (simp add: DepInfo_def)
  with m a show ?thesis by simp
qed



text \<open>
  C1. The file \<^verbatim>\<open>/home/user/build/configure.sh\<close> of \<open>world_built\<close> holds exactly the script
  that \<open>generate_configure_script\<close> renders for \<open>args_ex\<close>, and was written at time 3. The
  call at time 10 does not leave it alone: the comparison of lines 203 to 208 only decides
  whether the file is removed first, and the file is then opened for writing and written
  in every case. The operation is recorded and the modification time is 10 afterwards.
\<close>

theorem generate_rewrites_identical_file:
  "nodes world_built [''home'', ''user'', ''build'', ''configure.sh''] = Some (File DEPS_script 3)
   \<and> clock world_built = 10
   \<and> generate_configure_script id DEPS args_ex world_built =
       (Inr (''/home/user/build/configure.sh'', DEPS_script),
        world_built\<lparr>nodes := (nodes world_built)
                       ([''home'', ''user'', ''build'', ''configure.sh''] \<mapsto> File DEPS_script 10),
                     log := [Write [''home'', ''user'', ''build'', ''configure.sh''] DEPS_script]\<rparr>)"
proof -
  have b: "build_dir args_ex = ''/home/user/build''"
    by (simp add: args_ex_def)
  have c: "cwd world_built = [''home'', ''user'']" "clock world_built = 10" "log world_built = []"
    by (simp_all add: world_built_def world_ex_def)
  have n: "nodes world_built [''home''] = Some Dir"
    "nodes world_built [''home'', ''user''] = Some Dir"
    "nodes world_built [''home'', ''user'', ''build''] = Some Dir"
    "nodes world_built [''home'', ''user'', ''build'', ''configure.sh''] = Some (File DEPS_script 3)"
    by (simp_all add: world_built_def world_ex_def)
  have m: "makedirs ''/home/user/build'' world_built = (Inr (), world_built)"
    by (simp add: makedirs_def resolve_def c abspath_build n)
  have s: "remove_stale ''/home/user/build/configure.sh'' DEPS_script world_built = Inr world_built"
    by (simp add: remove_stale_def file_exists_def is_file_def read_file_def is_dir_def
        resolve_def c abspath_cfg n)
  have w: "write_file ''/home/user/build/configure.sh'' DEPS_script world_built =
     Inr (world_built\<lparr>nodes := (nodes world_built)
                       ([''home'', ''user'', ''build'', ''configure.sh''] \<mapsto> File DEPS_script 10),
                     log := [Write [''home'', ''user'', ''build'', ''configure.sh''] DEPS_script]\<rparr>)"
    by (simp add: write_file_def is_dir_def resolve_def c abspath_cfg n)
  show ?thesis
    by (simp add: generate_configure_script_def render_DEPS_ex b m join_build s w n c)
qed






end
